theory Spec2Isabelle
  imports Complex_Main "HOL-Library.Word" "HOL-Library.Sublist" "HOL-Library.AList"
begin

section \<open>Strings, numbers and errors of the runtime\<close>

text \<open>
  A JavaScript string is the list of its UTF-16 code units. \<open>js\<close> writes an ASCII literal
  as such a list.
\<close>

type_synonym codeunit = "16 word"
type_synonym jsstring = "codeunit list"
type_synonym byte = "8 word"

definition js :: "string \<Rightarrow> jsstring" where
  "js s = map (\<lambda>c. of_nat (of_char c)) s"

text \<open>
  Everything that can be thrown is a value of \<open>error\<close>: the TypeError of a method call on a
  value that has no such method, the RangeError of a typed array or of \<open>randomBytes\<close>, the
  QuotaExceededError of \<open>crypto.getRandomValues\<close>, the errors of the file system
  (\<open>ENOENT\<close> and any other errno, \<open>IOError\<close>), the SyntaxError of \<open>JSON.parse\<close>, the error
  of the HTTP client, and \<open>new Error(message)\<close>.
\<close>

datatype error =
    TypeError | RangeError | QuotaExceededError
  | ENOENT | IOError | SyntaxError | AxiosError string | Error string

text \<open>
  A number that is passed as an argument: \<open>NaN\<close>, an infinity, or a finite number with its
  exact value. The tests applied to such a number here compare it with a counter below
  \<open>2^31\<close> or subtract 1 from it before they compare; on doubles these give what the exact
  values give.
\<close>

datatype jsnumber = NotANumber | PlusInfinity | MinusInfinity | Finite real

text \<open>A value that is passed where the parameter is declared a string.\<close>

datatype jsarg =
    StringValue jsstring | UndefinedValue | NullValue | NumberValue jsnumber | BooleanValue bool

text \<open>
  What the program is given by the runtime it runs on: the function
  \<open>String.prototype.toUpperCase\<close>, which maps a string to its Unicode upper case (one code
  point may become several), and whether there is a global \<open>crypto\<close> with
  \<open>getRandomValues\<close> (otherwise the source takes \<open>require('crypto').randomBytes\<close>).
  Failures of the engine for lack of memory (an allocation that fails, a string beyond
  the greatest length) are not modelled.
\<close>

record runtime =
  toUpperCase :: "jsstring \<Rightarrow> jsstring"
  webCrypto :: bool

section \<open>The code scheme (src/utils/code-generator.ts)\<close>

definition CROCKFORD_ALPHABET :: jsstring where
  "CROCKFORD_ALPHABET = js ''0123456789ABCDEFGHJKMNPQRSTVWXYZ''"

text \<open>
  \<open>new Uint8Array(length)\<close> takes its length by \<open>ToIndex\<close>: \<open>NaN\<close> is 0, a finite number is
  truncated towards zero, and a result below 0 or above \<open>2^53 - 1\<close> is a RangeError.
\<close>

definition ToIndex :: "jsnumber \<Rightarrow> error + nat" where
  "ToIndex v =
     (case v of
        NotANumber \<Rightarrow> Inr 0
      | PlusInfinity \<Rightarrow> Inl RangeError
      | MinusInfinity \<Rightarrow> Inl RangeError
      | Finite q \<Rightarrow>
          (let t = (if 0 \<le> q then \<lfloor>q\<rfloor> else \<lceil>q\<rceil>)
           in if t < 0 \<or> 9007199254740991 < t then Inl RangeError else Inr (nat t)))"

text \<open>
  The random source. \<open>crypto.getRandomValues(bytes)\<close> throws a QuotaExceededError for an
  array of more than 65536 bytes. \<open>nodeCrypto.randomBytes(length)\<close> throws a RangeError
  for a size that is \<open>NaN\<close>, negative or above \<open>2^31 - 1\<close>. \<open>None\<close>: the bytes are drawn.
\<close>

definition getRandomValues :: "nat \<Rightarrow> error option" where
  "getRandomValues n = (if 65536 < n then Some QuotaExceededError else None)"

definition randomBytes :: "jsnumber \<Rightarrow> error option" where
  "randomBytes sz =
     (case sz of
        NotANumber \<Rightarrow> Some RangeError
      | PlusInfinity \<Rightarrow> Some RangeError
      | MinusInfinity \<Rightarrow> Some RangeError
      | Finite q \<Rightarrow> if q < 0 \<or> 2147483647 < q then Some RangeError else None)"

text \<open>
  \<open>separatorPosition - 1\<close> and the test \<open>i === separatorPosition - 1\<close> for a counter \<open>i\<close>.
\<close>

fun minus_one :: "jsnumber \<Rightarrow> jsnumber" where
  "minus_one (Finite q) = Finite (q - 1)"
| "minus_one v = v"

fun strict_equal :: "nat \<Rightarrow> jsnumber \<Rightarrow> bool" where
  "strict_equal i (Finite q) = (real i = q)"
| "strict_equal i v = False"

text \<open>
  The \<open>for\<close> loop of \<open>generateCode\<close> for a finite \<open>length\<close>; its arguments \<open>i\<close> and \<open>code\<close>
  are the two variables of the loop, \<open>n\<close> is the length of the array \<open>bytes\<close>. Past the
  end of the array \<open>bytes[i]\<close> is \<open>undefined\<close>, \<open>undefined % 32\<close> is \<open>NaN\<close>, the alphabet has no
  character at \<open>NaN\<close>, and \<open>code += undefined\<close> appends the text \<open>undefined\<close>.
\<close>

function generateCode_loop ::
  "real \<Rightarrow> jsstring \<Rightarrow> jsnumber \<Rightarrow> nat \<Rightarrow> (nat \<Rightarrow> byte) \<Rightarrow> nat \<Rightarrow> jsstring \<Rightarrow> jsstring" where
  "generateCode_loop len separator separatorPosition n bytes i code =
     (if real i < len then
        let code1 = (if i < n
                     then code @ [CROCKFORD_ALPHABET !
                                    (unat (bytes i) mod length CROCKFORD_ALPHABET)]
                     else code @ js ''undefined'');
            code2 = (if strict_equal i (minus_one separatorPosition) \<and> real i < len - 1
                     then code1 @ separator else code1)
        in generateCode_loop len separator separatorPosition n bytes (i + 1) code2
      else code)"
  by pat_completeness auto
termination
proof (relation "measure (\<lambda>(len, separator, separatorPosition, n, bytes, i, code).
                           nat \<lceil>len\<rceil> - i)")
  show "wf (measure (\<lambda>(len, separator, separatorPosition, n, bytes, i, code).
                      nat \<lceil>len :: real\<rceil> - i))"
    by simp
next
  fix len :: real and separator :: jsstring and separatorPosition :: jsnumber
    and n :: nat and bytes :: "nat \<Rightarrow> byte" and i :: nat and code x xa :: jsstring
  assume "real i < len"
  also have "len \<le> of_int \<lceil>len\<rceil>" by (rule le_of_int_ceiling)
  finally have "int i < \<lceil>len\<rceil>" by (simp add: of_nat_less_of_int_iff)
  then have "i < nat \<lceil>len\<rceil>" by simp
  then show "((len, separator, separatorPosition, n, bytes, i + 1, xa),
              (len, separator, separatorPosition, n, bytes, i, code))
             \<in> measure (\<lambda>(len, separator, separatorPosition, n, bytes, i, code).
                          nat \<lceil>len\<rceil> - i)"
    by (simp add: diff_less_mono2)
qed

declare generateCode_loop.simps [simp del]

text \<open>
  \<open>generateCode(length, separator, separatorPosition)\<close> on the runtime \<open>rt\<close>; \<open>bytes\<close> are
  the random bytes that are drawn, one for each index of the array. With a \<open>length\<close> that
  is \<open>NaN\<close> the loop makes no round; an infinite \<open>length\<close> does not get past the array.
\<close>

definition generateCode ::
  "runtime \<Rightarrow> jsnumber \<Rightarrow> jsstring \<Rightarrow> jsnumber \<Rightarrow> (nat \<Rightarrow> byte) \<Rightarrow> error + jsstring" where
  "generateCode rt len separator separatorPosition bytes =
     (case ToIndex len of
        Inl e \<Rightarrow> Inl e
      | Inr n \<Rightarrow>
          (case (if webCrypto rt then getRandomValues n else randomBytes len) of
             Some e \<Rightarrow> Inl e
           | None \<Rightarrow>
               (case len of
                  Finite q \<Rightarrow> Inr (generateCode_loop q separator separatorPosition n bytes 0 [])
                | _ \<Rightarrow> Inr [])))"

text \<open>The call \<open>generateCode()\<close>, with the defaults of the parameter list.\<close>

definition generateCode_default :: "runtime \<Rightarrow> (nat \<Rightarrow> byte) \<Rightarrow> error + jsstring" where
  "generateCode_default rt bytes = generateCode rt (Finite 8) (js ''-'') (Finite 4) bytes"

text \<open>
  The spec's words for the symbols of a code: the byte drawn for each index is mapped to
  the symbol of the alphabet at \<open>byteValue mod 32\<close>. \<open>symbols bytes n\<close> are the first
  \<open>n\<close> symbols. \<open>piece\<close> is what round \<open>j\<close> of the loop appends to the code.
\<close>

definition symbols :: "(nat \<Rightarrow> byte) \<Rightarrow> nat \<Rightarrow> jsstring" where
  "symbols bytes n = map (\<lambda>i. CROCKFORD_ALPHABET ! (unat (bytes i) mod 32)) [0..<n]"

definition piece :: "real \<Rightarrow> jsstring \<Rightarrow> jsnumber \<Rightarrow> nat \<Rightarrow> (nat \<Rightarrow> byte) \<Rightarrow> nat \<Rightarrow> jsstring" where
  "piece len sep pos n bytes j =
     (if j < n then [CROCKFORD_ALPHABET ! (unat (bytes j) mod 32)] else js ''undefined'')
       @ (if strict_equal j (minus_one pos) \<and> real j < len - 1 then sep else [])"

text \<open>\<open>Number.isInteger\<close>.\<close>

fun isInteger :: "jsnumber \<Rightarrow> bool" where
  "isInteger (Finite q) = (q \<in> \<int>)"
| "isInteger v = False"

text \<open>\<open>code.replace(/-/g, '')\<close>: every occurrence of the dash is removed.\<close>

definition replace_dash :: "jsstring \<Rightarrow> jsstring" where
  "replace_dash code = filter (\<lambda>c. c \<noteq> 0x2D) code"

text \<open>\<open>s.split('')\<close>: the list of the strings of one code unit of \<open>s\<close>.\<close>

definition split_chars :: "jsstring \<Rightarrow> jsstring list" where
  "split_chars s = map (\<lambda>c. [c]) s"

text \<open>\<open>s.includes(t)\<close>: \<open>t\<close> occurs in \<open>s\<close> as a contiguous substring.\<close>

fun str_includes :: "jsstring \<Rightarrow> jsstring \<Rightarrow> bool" where
  "str_includes [] t = (t = [])"
| "str_includes (x # xs) t = (prefix t (x # xs) \<or> str_includes xs t)"

text \<open>
  \<open>validateCode\<close> and \<open>normalizeCode\<close>. The first thing both do is call \<open>code.replace\<close>:
  on a value that is not a string this throws a TypeError.
\<close>

definition validateCode :: "runtime \<Rightarrow> jsarg \<Rightarrow> error + bool" where
  "validateCode rt v =
     (case v of
        StringValue code \<Rightarrow>
          (let cleanCode = toUpperCase rt (replace_dash code)
           in Inr (list_all (\<lambda>char. str_includes CROCKFORD_ALPHABET char)
                     (split_chars cleanCode)))
      | _ \<Rightarrow> Inl TypeError)"

definition normalizeCode :: "runtime \<Rightarrow> jsarg \<Rightarrow> error + jsstring" where
  "normalizeCode rt v =
     (case v of
        StringValue code \<Rightarrow> Inr (toUpperCase rt (replace_dash code))
      | _ \<Rightarrow> Inl TypeError)"

text \<open>
  A runtime for the examples. Its upper-casing is that of the letters \<open>a\<close> to \<open>z\<close> and of
  the sharp s (U+00DF, which becomes \<open>SS\<close>), and leaves every other code unit as it is.
\<close>

definition upper_unit :: "codeunit \<Rightarrow> jsstring" where
  "upper_unit c =
     (case map_of (zip (js ''abcdefghijklmnopqrstuvwxyz'') (js ''ABCDEFGHIJKLMNOPQRSTUVWXYZ'')) c of
        Some u \<Rightarrow> [u]
      | None \<Rightarrow> if c = 0xDF then js ''SS'' else [c])"

definition example_runtime :: runtime where
  "example_runtime = \<lparr>toUpperCase = (\<lambda>s. concat (map upper_unit s)), webCrypto = True\<rparr>"

text \<open>
  The spec's words for the place of the separator: once, immediately after the symbol at
  \<open>separatorPosition\<close> (1-indexed), unless that position is the last character.
  \<open>with_separator sep pos syms\<close> is \<open>syms\<close> with \<open>sep\<close> put in after the symbol at position
  \<open>pos\<close>, when \<open>pos\<close> is a whole number from 1 to one less than the number of symbols, and
  \<open>syms\<close> otherwise.
\<close>

definition with_separator :: "jsstring \<Rightarrow> jsnumber \<Rightarrow> jsstring \<Rightarrow> jsstring" where
  "with_separator sep pos syms =
     (case pos of
        Finite p \<Rightarrow>
          if p \<in> \<int> \<and> 1 \<le> p \<and> p < real (length syms)
          then take (nat \<lfloor>p\<rfloor>) syms @ sep @ drop (nat \<lfloor>p\<rfloor>) syms
          else syms
      | _ \<Rightarrow> syms)"

section \<open>Numbers and dates of the commands\<close>

text \<open>
  The numbers of the commands are results of \<open>parseInt\<close>, time values in milliseconds
  and sums and products of these: integers, or \<open>NaN\<close>. \<open>Num n\<close> is the number with the
  integer value \<open>n\<close>. Arithmetic with \<open>NaN\<close> gives \<open>NaN\<close>, and every comparison with
  \<open>NaN\<close> is false. The code has doubles: an integer beyond \<open>2^53\<close> is rounded, and one
  beyond the doubles is an infinity. Rounding is monotonic and keeps every integer up to
  \<open>2^53\<close>, and the numbers are compared with 1, with 10, with each other after adding a
  product to a time, and with the bound \<open>8.64e15\<close> of \<open>Date\<close>, which is below \<open>2^53\<close>:
  these comparisons give on the doubles what they give on the integers. A time value that
  comes out of a product beyond \<open>2^53\<close> and is still in the range of \<open>Date\<close> may differ
  from that of the code by the rounding.
\<close>

datatype jsnum = NaN | Num int

fun num_add :: "jsnum \<Rightarrow> jsnum \<Rightarrow> jsnum" where
  "num_add (Num a) (Num b) = Num (a + b)"
| "num_add _ _ = NaN"

fun num_sub :: "jsnum \<Rightarrow> jsnum \<Rightarrow> jsnum" where
  "num_sub (Num a) (Num b) = Num (a - b)"
| "num_sub _ _ = NaN"

fun num_mul :: "jsnum \<Rightarrow> jsnum \<Rightarrow> jsnum" where
  "num_mul (Num a) (Num b) = Num (a * b)"
| "num_mul _ _ = NaN"

fun num_lt :: "jsnum \<Rightarrow> jsnum \<Rightarrow> bool" where
  "num_lt (Num a) (Num b) = (a < b)"
| "num_lt _ _ = False"

fun num_gt :: "jsnum \<Rightarrow> jsnum \<Rightarrow> bool" where
  "num_gt (Num a) (Num b) = (a > b)"
| "num_gt _ _ = False"

fun num_ge :: "jsnum \<Rightarrow> jsnum \<Rightarrow> bool" where
  "num_ge (Num a) (Num b) = (a \<ge> b)"
| "num_ge _ _ = False"

text \<open>
  \<open>parseInt(string, 10)\<close>. Leading white space is skipped: the code units that are
  \<open>WhiteSpace\<close> (TAB, VT, FF, the byte order mark U+FEFF and the space separators of
  Unicode: U+0020, U+00A0, U+1680, U+2000 to U+200A, U+202F, U+205F, U+3000) or
  \<open>LineTerminator\<close> (LF, CR, U+2028, U+2029). Then one sign is read, then the longest run
  of decimal digits; no digit gives \<open>NaN\<close>.
\<close>

definition isStrWhiteSpaceChar :: "codeunit \<Rightarrow> bool" where
  "isStrWhiteSpaceChar c =
     (c \<in> set [0x0009, 0x000B, 0x000C, 0xFEFF,
               0x0020, 0x00A0, 0x1680, 0x2000, 0x2001, 0x2002, 0x2003, 0x2004, 0x2005,
               0x2006, 0x2007, 0x2008, 0x2009, 0x200A, 0x202F, 0x205F, 0x3000,
               0x000A, 0x000D, 0x2028, 0x2029])"

definition digitValue :: "codeunit \<Rightarrow> int option" where
  "digitValue c = map_of (zip (js ''0123456789'') [0, 1, 2, 3, 4, 5, 6, 7, 8, 9]) c"

definition isRadixDigit :: "codeunit \<Rightarrow> bool" where
  "isRadixDigit c = (digitValue c \<noteq> None)"

definition mathInt :: "jsstring \<Rightarrow> int" where
  "mathInt Z = foldl (\<lambda>a c. 10 * a + (case digitValue c of Some d \<Rightarrow> d | None \<Rightarrow> 0)) 0 Z"

definition parseInt :: "jsstring \<Rightarrow> jsnum" where
  "parseInt inputString =
     (let S = dropWhile isStrWhiteSpaceChar inputString;
          sign = (if take 1 S = js ''-'' then - 1 else 1);
          S1 = (if take 1 S = js ''+'' \<or> take 1 S = js ''-'' then drop 1 S else S);
          Z = takeWhile isRadixDigit S1
      in if Z = [] then NaN else Num (sign * mathInt Z))"

text \<open>
  The values a timestamp field holds at run time: a \<open>Date\<close> object with its time value
  (milliseconds since the epoch, \<open>NaN\<close> for an invalid date), the ISO-8601 string that
  \<open>toISOString\<close> gives for an instant, or \<open>null\<close>.

  \<open>new Date(v)\<close> clips the time value to the range of \<open>Date\<close> (\<open>TimeClip\<close>), reads an ISO
  string back to its instant, and takes \<open>null\<close> for the number 0.
  \<open>JSON.stringify\<close> writes a \<open>Date\<close> through \<open>toJSON\<close>: the ISO string, or \<open>null\<close> for an
  invalid date; a string or \<open>null\<close> is written as it is.
\<close>

datatype jsvalue = DateObj jsnum | IsoString int | Null

definition timeClip :: "jsnum \<Rightarrow> jsnum" where
  "timeClip t = (case t of NaN \<Rightarrow> NaN
                 | Num n \<Rightarrow> if \<bar>n\<bar> > 8640000000000000 then NaN else Num n)"

definition newDate_ms :: "jsnum \<Rightarrow> jsvalue" where
  "newDate_ms t = DateObj (timeClip t)"

fun newDate :: "jsvalue \<Rightarrow> jsvalue" where
  "newDate (DateObj t) = DateObj t"
| "newDate (IsoString t) = DateObj (timeClip (Num t))"
| "newDate Null = DateObj (Num 0)"

text \<open>
  \<open>getTime()\<close> and the conversion of a comparison (\<open>now >= session.revealAt\<close>) are only
  ever applied to \<open>Date\<close> objects in the commands modelled here.
\<close>

fun getTime :: "jsvalue \<Rightarrow> jsnum" where
  "getTime (DateObj t) = t"
| "getTime (IsoString t) = NaN"
| "getTime Null = NaN"

fun toJSON_value :: "jsvalue \<Rightarrow> jsvalue" where
  "toJSON_value (DateObj (Num t)) = IsoString t"
| "toJSON_value (DateObj NaN) = Null"
| "toJSON_value (IsoString t) = IsoString t"
| "toJSON_value Null = Null"

fun truthy :: "jsvalue option \<Rightarrow> bool" where
  "truthy None = False"
| "truthy (Some Null) = False"
| "truthy (Some (DateObj t)) = True"
| "truthy (Some (IsoString t)) = True"

section \<open>Sessions and targets (src/types)\<close>

text \<open>
  The interfaces \<open>RVTarget\<close> and \<open>RVSession\<close>. An optional property is an \<open>option\<close>.
  The fields \<open>id\<close> and \<open>notes\<close> are named \<open>id_s\<close> and \<open>notes_s\<close> here. The type
  \<open>RVSession\<close> declares no property \<open>revealedAt\<close>, but \<open>getSession\<close> reads and writes one
  on the session object: it is the field \<open>session_revealedAt\<close>.
\<close>

datatype targetSource = unsplash | pexels | pixabay

record RVTarget =
  code :: jsstring
  targetUrl :: jsstring
  targetDescription :: jsstring
  targetSource :: targetSource
  revealed :: bool
  revealedAt :: "jsvalue option"

record RVSession =
  id_s :: jsstring
  name :: "jsstring option"
  targets :: "RVTarget list"
  createdAt :: jsvalue
  revealAt :: jsvalue
  notes_s :: "jsstring option"
  session_revealedAt :: "jsvalue option"

section \<open>The session store (JsonStorageService)\<close>

text \<open>
  The sessions directory is \<open>None\<close> while it does not exist, and otherwise the list of
  its files, in the order \<open>readdir\<close> lists them, each with its name and its content.
  A file holds the JSON text of a session (\<open>Json s\<close>, with \<open>s\<close> the object that
  \<open>JSON.parse\<close> gives back for it), or text that \<open>JSON.parse\<close> rejects (\<open>Garbage\<close>).
  \<open>faults\<close> says which operations of the file system fail with an error other than
  \<open>ENOENT\<close>. Session ids are file names: no path separators.
\<close>

datatype fsop = Mkdir | Readdir | ReadFile jsstring | WriteFile jsstring | Unlink jsstring

datatype filedata = Json RVSession | Garbage

record fs =
  sessionsDir :: "(jsstring \<times> filedata) list option"
  faults :: "fsop \<Rightarrow> bool"

text \<open>
  What the program prints: the logger (a call of \<open>logger.error\<close> or \<open>logger.debug\<close> is
  recorded with its fixed text), the console, the spinner, the prompt and the boxes.
  Values that the source interpolates into a message are left out, but for the code of
  a target (\<open>ConsoleLogCode\<close>: the fixed text and the code); the boxes and the status
  reports are recorded with the objects they are printed from.
\<close>

datatype printed =
    LogError string
  | LogDebug string
  | ConsoleLog string
  | ConsoleLogCode string jsstring
  | SpinnerFail string
  | SpinnerSucceed string
  | Prompt string
  | ShowTarget RVTarget RVSession
  | ShowCreated RVSession
  | ShowSessions "RVSession list"
  | ShowTargetStatus RVTarget RVSession int
  | ShowSessionStatus RVSession int

definition fs_mkdir :: "fs \<Rightarrow> error + fs" where
  "fs_mkdir f =
     (if faults f Mkdir then Inl IOError
      else Inr (f\<lparr>sessionsDir := Some (case sessionsDir f of None \<Rightarrow> [] | Some d \<Rightarrow> d)\<rparr>))"

definition fs_readdir :: "fs \<Rightarrow> error + jsstring list" where
  "fs_readdir f =
     (if faults f Readdir then Inl IOError
      else case sessionsDir f of None \<Rightarrow> Inl ENOENT | Some d \<Rightarrow> Inr (map fst d))"

definition fs_readFile :: "jsstring \<Rightarrow> fs \<Rightarrow> error + filedata" where
  "fs_readFile filePath f =
     (if faults f (ReadFile filePath) then Inl IOError
      else case sessionsDir f of
             None \<Rightarrow> Inl ENOENT
           | Some d \<Rightarrow> (case map_of d filePath of None \<Rightarrow> Inl ENOENT | Some c \<Rightarrow> Inr c))"

definition fs_writeFile :: "jsstring \<Rightarrow> filedata \<Rightarrow> fs \<Rightarrow> error + fs" where
  "fs_writeFile filePath c f =
     (if faults f (WriteFile filePath) then Inl IOError
      else case sessionsDir f of
             None \<Rightarrow> Inl ENOENT
           | Some d \<Rightarrow> Inr (f\<lparr>sessionsDir := Some (AList.update filePath c d)\<rparr>))"

definition fs_unlink :: "jsstring \<Rightarrow> fs \<Rightarrow> error + fs" where
  "fs_unlink filePath f =
     (if faults f (Unlink filePath) then Inl IOError
      else case sessionsDir f of
             None \<Rightarrow> Inl ENOENT
           | Some d \<Rightarrow> (case map_of d filePath of
                          None \<Rightarrow> Inl ENOENT
                        | Some c \<Rightarrow> Inr (f\<lparr>sessionsDir := Some (AList.delete filePath d)\<rparr>)))"

text \<open>\<open>JSON.stringify(session, null, 2)\<close> and \<open>JSON.parse(data)\<close>.\<close>

definition toJSON_target :: "RVTarget \<Rightarrow> RVTarget" where
  "toJSON_target t = t\<lparr>revealedAt := map_option toJSON_value (revealedAt t)\<rparr>"

definition toJSON_session :: "RVSession \<Rightarrow> RVSession" where
  "toJSON_session s =
     s\<lparr>targets := map toJSON_target (targets s),
       createdAt := toJSON_value (createdAt s),
       revealAt := toJSON_value (revealAt s),
       session_revealedAt := map_option toJSON_value (session_revealedAt s)\<rparr>"

definition JSON_stringify :: "RVSession \<Rightarrow> filedata" where
  "JSON_stringify s = Json (toJSON_session s)"

fun JSON_parse :: "filedata \<Rightarrow> error + RVSession" where
  "JSON_parse (Json s) = Inr s"
| "JSON_parse Garbage = Inl SyntaxError"

definition getSessionPath :: "jsstring \<Rightarrow> jsstring" where
  "getSessionPath i = i @ js ''.json''"

definition ensureDataDirectory :: "fs \<Rightarrow> printed list \<times> (error + unit) \<times> fs" where
  "ensureDataDirectory f =
     (case fs_mkdir f of
        Inl e \<Rightarrow> ([LogError ''Failed to create data directory:''], Inl e, f)
      | Inr f' \<Rightarrow> ([], Inr (), f'))"

definition saveSession :: "RVSession \<Rightarrow> fs \<Rightarrow> printed list \<times> (error + unit) \<times> fs" where
  "saveSession session f =
     (case ensureDataDirectory f of
        (out, Inl e, f1) \<Rightarrow> (out, Inl e, f1)
      | (out, Inr u, f1) \<Rightarrow>
          (let filePath = getSessionPath (id_s session) in
           case fs_writeFile filePath (JSON_stringify session) f1 of
             Inr f2 \<Rightarrow> (out @ [LogDebug ''Session saved''], Inr (), f2)
           | Inl e \<Rightarrow> (out @ [LogError ''Failed to save session:''],
                       Inl (Error ''Failed to save session''), f1)))"

text \<open>
  \<open>getSession\<close>. The three conversions are the three assignments of the source; the
  third one is on the property \<open>revealedAt\<close> of the session. \<open>None\<close> is \<open>null\<close>.
\<close>

definition getSession :: "jsstring \<Rightarrow> fs \<Rightarrow> printed list \<times> (error + RVSession option)" where
  "getSession i f =
     (let filePath = getSessionPath i in
      case (case fs_readFile filePath f of Inl e \<Rightarrow> Inl e | Inr data \<Rightarrow> JSON_parse data) of
        Inr session \<Rightarrow>
          (let session1 = session\<lparr>createdAt := newDate (createdAt session)\<rparr>;
               session2 = session1\<lparr>revealAt := newDate (revealAt session1)\<rparr>;
               session3 = (if truthy (session_revealedAt session2)
                           then session2\<lparr>session_revealedAt :=
                                  map_option newDate (session_revealedAt session2)\<rparr>
                           else session2)
           in ([], Inr (Some session3)))
      | Inl e \<Rightarrow>
          (if e = ENOENT then ([], Inr None)
           else ([LogError ''Failed to read session:''], Inl e)))"

text \<open>\<open>file.endsWith('.json')\<close> and \<open>file.replace('.json', '')\<close> (the first occurrence).\<close>

definition endsWith :: "jsstring \<Rightarrow> jsstring \<Rightarrow> bool" where
  "endsWith s t = (length t \<le> length s \<and> drop (length s - length t) s = t)"

fun remove_first :: "jsstring \<Rightarrow> jsstring \<Rightarrow> jsstring" where
  "remove_first pat [] = []"
| "remove_first pat (x # xs) =
     (if prefix pat (x # xs) then drop (length pat) (x # xs) else x # remove_first pat xs)"

text \<open>
  \<open>sessions.sort((a, b) => b.createdAt.getTime() - a.createdAt.getTime())\<close>. The sort is
  stable, and a comparison that is \<open>NaN\<close> counts as 0. When every \<open>createdAt\<close> is a valid
  date the comparison is an order, and the result is the one of this insertion sort: the
  newest session first, sessions of the same time in the order of the listing. When a
  \<open>createdAt\<close> is an invalid date the comparison is no order and the language leaves the
  result to the implementation; the model has the result of its insertion sort then.
\<close>

definition compare_sessions :: "RVSession \<Rightarrow> RVSession \<Rightarrow> int" where
  "compare_sessions a b =
     (case num_sub (getTime (createdAt b)) (getTime (createdAt a)) of NaN \<Rightarrow> 0 | Num d \<Rightarrow> d)"

fun insert_session :: "RVSession \<Rightarrow> RVSession list \<Rightarrow> RVSession list" where
  "insert_session a [] = [a]"
| "insert_session a (b # bs) =
     (if compare_sessions a b \<le> 0 then a # b # bs else b # insert_session a bs)"

definition sort_sessions :: "RVSession list \<Rightarrow> RVSession list" where
  "sort_sessions ss = foldr insert_session ss []"

text \<open>
  The loop of \<open>getAllSessions\<close> over the listed files; an error of \<open>getSession\<close> leaves
  the loop, for the \<open>catch\<close> of \<open>getAllSessions\<close>.
\<close>

fun getAllSessions_loop ::
  "jsstring list \<Rightarrow> fs \<Rightarrow> printed list \<Rightarrow> RVSession list \<Rightarrow> printed list \<times> (error + RVSession list)" where
  "getAllSessions_loop [] f out sessions = (out, Inr sessions)"
| "getAllSessions_loop (file # files) f out sessions =
     (if endsWith file (js ''.json'') then
        (case getSession (remove_first (js ''.json'') file) f of
           (out1, Inl e) \<Rightarrow> (out @ out1, Inl e)
         | (out1, Inr None) \<Rightarrow> getAllSessions_loop files f (out @ out1) sessions
         | (out1, Inr (Some session)) \<Rightarrow>
             getAllSessions_loop files f (out @ out1) (sessions @ [session]))
      else getAllSessions_loop files f out sessions)"

definition getAllSessions :: "fs \<Rightarrow> printed list \<times> (error + RVSession list) \<times> fs" where
  "getAllSessions f =
     (case ensureDataDirectory f of
        (out, Inl e, f1) \<Rightarrow> (out, Inl e, f1)
      | (out, Inr u, f1) \<Rightarrow>
          (case fs_readdir f1 of
             Inl e \<Rightarrow> (out @ [LogError ''Failed to list sessions:''], Inr [], f1)
           | Inr files \<Rightarrow>
               (case getAllSessions_loop files f1 out [] of
                  (out1, Inl e) \<Rightarrow> (out1 @ [LogError ''Failed to list sessions:''], Inr [], f1)
                | (out1, Inr sessions) \<Rightarrow> (out1, Inr (sort_sessions sessions), f1))))"

text \<open>
  \<open>updateSession\<close>; \<open>updates\<close> is the change that the spread \<open>{ ...session, ...updates }\<close>
  makes to the session that was read.
\<close>

definition updateSession ::
  "jsstring \<Rightarrow> (RVSession \<Rightarrow> RVSession) \<Rightarrow> fs \<Rightarrow> printed list \<times> (error + unit) \<times> fs" where
  "updateSession i updates f =
     (case getSession i f of
        (out, Inl e) \<Rightarrow> (out, Inl e, f)
      | (out, Inr None) \<Rightarrow> (out, Inl (Error ''Session not found''), f)
      | (out, Inr (Some session)) \<Rightarrow>
          (case saveSession (updates session) f of
             (out1, r, f1) \<Rightarrow> (out @ out1, r, f1)))"

definition deleteSession :: "jsstring \<Rightarrow> fs \<Rightarrow> printed list \<times> (error + unit) \<times> fs" where
  "deleteSession i f =
     (case fs_unlink (getSessionPath i) f of
        Inr f1 \<Rightarrow> ([LogDebug ''Session deleted''], Inr (), f1)
      | Inl e \<Rightarrow> ([LogError ''Failed to delete session:''],
                  Inl (Error ''Failed to delete session''), f))"

section \<open>The image source (UnsplashService)\<close>

text \<open>
  The answer of the HTTP client to the request is a parameter: the photo, reduced to
  the three fields of the result, or the error that is thrown (\<open>AxiosError\<close> for one
  that \<open>axios.isAxiosError\<close> accepts).
\<close>

record image =
  url :: jsstring
  description :: jsstring
  sourceUrl :: jsstring

fun isAxiosError :: "error \<Rightarrow> bool" where
  "isAxiosError (AxiosError m) = True"
| "isAxiosError _ = False"

definition fetchRandomImage :: "error + image \<Rightarrow> printed list \<times> (error + image)" where
  "fetchRandomImage response =
     (case response of
        Inr photo \<Rightarrow> ([LogDebug ''Fetching random image from Unsplash...''], Inr photo)
      | Inl e \<Rightarrow>
          (if isAxiosError e
           then ([LogDebug ''Fetching random image from Unsplash...'', LogError ''Unsplash API error:''],
                 Inl (Error ''Failed to fetch image from Unsplash''))
           else ([LogDebug ''Fetching random image from Unsplash...''], Inl e)))"

definition testConnection :: "error + image \<Rightarrow> printed list \<times> (error + bool)" where
  "testConnection response =
     (case response of Inr photo \<Rightarrow> ([], Inr True) | Inl e \<Rightarrow> ([], Inr False))"

section \<open>The commands (src/commands)\<close>

text \<open>
  A command ends by returning (\<open>Completed\<close>, exit code 0) or by \<open>process.exit(1)\<close>
  (\<open>Exit 1\<close>). \<open>error.message\<close> is \<open>error_message\<close>; every error of the model is an instance
  of \<open>Error\<close>.
\<close>

datatype exit = Completed | Exit int

fun error_message :: "error \<Rightarrow> string" where
  "error_message (Error m) = m"
| "error_message (AxiosError m) = m"
| "error_message TypeError = ''code.replace is not a function''"
| "error_message RangeError = ''Invalid typed array length''"
| "error_message QuotaExceededError = ''The requested length exceeds 65,536 bytes''"
| "error_message ENOENT = ''ENOENT: no such file or directory''"
| "error_message IOError = ''I/O error''"
| "error_message SyntaxError = ''Unexpected token in JSON''"

subsection \<open>create\<close>

record createOptions =
  opt_duration :: jsstring
  opt_targets :: jsstring
  opt_name :: "jsstring option"
  opt_source :: jsstring

text \<open>
  The loop that creates the targets, \<open>for (let i = 0; i < targetCount; i++)\<close>. Each
  round draws the bytes of one code (\<open>rnd i\<close>) and sends one request, answered by
  \<open>responses i\<close>.
\<close>

function createTargets_loop ::
  "runtime \<Rightarrow> jsnum \<Rightarrow> (nat \<Rightarrow> nat \<Rightarrow> byte) \<Rightarrow> (nat \<Rightarrow> error + image) \<Rightarrow> int \<Rightarrow> printed list
   \<Rightarrow> RVTarget list \<Rightarrow> printed list \<times> (error + RVTarget list)" where
  "createTargets_loop rt targetCount rnd responses i out ts =
     (if num_lt (Num i) targetCount then
        (case generateCode_default rt (rnd (nat i)) of
           Inl e \<Rightarrow> (out, Inl e)
         | Inr c \<Rightarrow>
             (case fetchRandomImage (responses (nat i)) of
                (out1, Inl e) \<Rightarrow> (out @ out1, Inl e)
              | (out1, Inr img) \<Rightarrow>
                  createTargets_loop rt targetCount rnd responses (i + 1) (out @ out1)
                    (ts @ [\<lparr>code = c, targetUrl = url img,
                            targetDescription = description img,
                            targetSource = unsplash, revealed = False,
                            revealedAt = None\<rparr>])))
      else (out, Inr ts))"
  by pat_completeness auto
termination
  by (relation "measure (\<lambda>(rt, targetCount, rnd, responses, i, out, ts).
        case targetCount of NaN \<Rightarrow> 0 | Num n \<Rightarrow> nat (n - i))")
     (auto split: jsnum.splits)

declare createTargets_loop.simps [simp del]

text \<open>
  \<open>unsplashKey\<close> is the environment variable (\<open>None\<close>: not set), \<open>sessionId\<close> the hex
  text of the eight random bytes of the session id, \<open>now\<close> the clock at \<open>new Date()\<close>.
\<close>

definition createCommand ::
  "runtime \<Rightarrow> jsstring option \<Rightarrow> createOptions \<Rightarrow> jsstring \<Rightarrow> int \<Rightarrow> (nat \<Rightarrow> nat \<Rightarrow> byte)
   \<Rightarrow> (nat \<Rightarrow> error + image) \<Rightarrow> fs \<Rightarrow> printed list \<times> exit \<times> fs" where
  "createCommand rt unsplashKey options sessionId now rnd responses f =
     (if unsplashKey = None \<or> unsplashKey = Some [] then
        ([SpinnerFail ''Unsplash API key not found'',
          ConsoleLog ''Please set UNSPLASH_ACCESS_KEY in your .env file or environment'',
          ConsoleLog ''Get your key at: https://unsplash.com/developers''], Exit 1, f)
      else
        let targetCount = parseInt (opt_targets options);
            duration = parseInt (opt_duration options)
        in
        if num_lt targetCount (Num 1) \<or> num_gt targetCount (Num 10) then
          ([SpinnerFail ''Invalid target count'',
            ConsoleLog ''Target count must be between 1 and 10''], Exit 1, f)
        else
          let created = DateObj (Num now);
              reveal = newDate_ms (num_add (getTime created)
                                    (num_mul (num_mul duration (Num 60)) (Num 1000)))
          in
          case createTargets_loop rt targetCount rnd responses 0 [] [] of
            (out, Inl e) \<Rightarrow>
              (out @ [SpinnerFail ''Failed to create session'', LogError (error_message e)],
               Exit 1, f)
          | (out, Inr ts) \<Rightarrow>
              (let session = \<lparr>id_s = sessionId, name = opt_name options, targets = ts,
                              createdAt = created, revealAt = reveal, notes_s = None,
                              session_revealedAt = None\<rparr>
               in case saveSession session f of
                    (out2, Inl e, f2) \<Rightarrow>
                      (out @ out2 @ [SpinnerFail ''Failed to create session'',
                                     LogError (error_message e)], Exit 1, f2)
                  | (out2, Inr u, f2) \<Rightarrow>
                      (out @ out2 @ [SpinnerSucceed ''RV session created successfully!'',
                                     ShowCreated session], Completed, f2)))"

subsection \<open>Observations on a run of create\<close>

text \<open>
  \<open>created_session\<close> is the session a successful run of create has saved and shows in its
  box. \<open>reveal_not_before_creation\<close> is the comparison \<open>revealAt >= createdAt\<close> of the two
  dates. \<open>invalid_target_count\<close> is what the exit for an invalid target count prints.
  \<open>new_session\<close> is the session object that create builds from its targets, and
  \<open>finish_create\<close> the rest of the command from \<open>saveSession\<close> on.
\<close>

definition created_session :: "printed list \<times> exit \<times> fs \<Rightarrow> RVSession option" where
  "created_session r =
     (case r of
        (out, Completed, f) \<Rightarrow> (case rev out of ShowCreated s # rest \<Rightarrow> Some s | _ \<Rightarrow> None)
      | (out, Exit n, f) \<Rightarrow> None)"

definition reveal_not_before_creation :: "RVSession \<Rightarrow> bool" where
  "reveal_not_before_creation s = num_ge (getTime (revealAt s)) (getTime (createdAt s))"

definition invalid_target_count :: "printed list" where
  "invalid_target_count =
     [SpinnerFail ''Invalid target count'', ConsoleLog ''Target count must be between 1 and 10'']"

definition new_session :: "createOptions \<Rightarrow> jsstring \<Rightarrow> int \<Rightarrow> RVTarget list \<Rightarrow> RVSession" where
  "new_session options sessionId now ts =
     \<lparr>id_s = sessionId, name = opt_name options, targets = ts,
      createdAt = DateObj (Num now),
      revealAt = newDate_ms (num_add (Num now)
                   (num_mul (num_mul (parseInt (opt_duration options)) (Num 60)) (Num 1000))),
      notes_s = None, session_revealedAt = None\<rparr>"

definition finish_create :: "printed list \<Rightarrow> RVSession \<Rightarrow> fs \<Rightarrow> printed list \<times> exit \<times> fs" where
  "finish_create out session f =
     (case saveSession session f of
        (out2, Inl e, f2) \<Rightarrow>
          (out @ out2 @ [SpinnerFail ''Failed to create session'', LogError (error_message e)],
           Exit 1, f2)
      | (out2, Inr u, f2) \<Rightarrow>
          (out @ out2 @ [SpinnerSucceed ''RV session created successfully!'', ShowCreated session],
           Completed, f2))"

subsection \<open>reveal\<close>

text \<open>
  \<open>normalizeCode(c).toUpperCase()\<close> for a string \<open>c\<close>, and the test of the two callbacks,
  \<open>normalizeCode(t.code).toUpperCase() === normalizedCode\<close>.
\<close>

definition normalized_upper :: "runtime \<Rightarrow> jsstring \<Rightarrow> error + jsstring" where
  "normalized_upper rt c =
     (case normalizeCode rt (StringValue c) of
        Inl e \<Rightarrow> Inl e
      | Inr n \<Rightarrow> Inr (toUpperCase rt n))"

definition code_matches :: "runtime \<Rightarrow> jsstring \<Rightarrow> RVTarget \<Rightarrow> error + bool" where
  "code_matches rt normalizedCode t =
     (case normalized_upper rt (code t) of
        Inl e \<Rightarrow> Inl e
      | Inr n \<Rightarrow> Inr (n = normalizedCode))"


fun array_find :: "('a \<Rightarrow> error + bool) \<Rightarrow> 'a list \<Rightarrow> error + 'a option" where
  "array_find P [] = Inr None"
| "array_find P (x # xs) =
     (case P x of
        Inl e \<Rightarrow> Inl e
      | Inr b \<Rightarrow> if b then Inr (Some x) else array_find P xs)"




subsection \<open>list\<close>

definition listCommand :: "bool \<Rightarrow> bool \<Rightarrow> fs \<Rightarrow> printed list \<times> exit \<times> fs" where
  "listCommand opt_all opt_revealed f =
     (case getAllSessions f of
        (out, Inl e, f1) \<Rightarrow>
          (out @ [LogError ''Failed to list sessions'', LogError (error_message e)], Exit 1, f1)
      | (out, Inr sessions, f1) \<Rightarrow>
          if length sessions = 0 then
            (out @ [ConsoleLog ''No sessions found.'',
                    ConsoleLog ''Create one with: glimpse create''], Completed, f1)
          else
            let filteredSessions =
                  (if opt_revealed then filter (\<lambda>s. list_all revealed (targets s)) sessions
                   else if \<not> opt_all
                        then filter (\<lambda>s. list_ex (\<lambda>t. \<not> revealed t) (targets s)) sessions
                        else sessions)
            in if length filteredSessions = 0 then
                 (out @ [ConsoleLog ''No sessions match the filter.''], Completed, f1)
               else (out @ [ShowSessions filteredSessions], Completed, f1))"

subsection \<open>status\<close>

text \<open>
  The loop over \<open>allSessions\<close> of status, left by \<open>return\<close> at the first target that
  matches. \<open>now\<close> is the clock of the report. \<open>status_failed\<close> is the \<open>catch\<close> of the
  command.
\<close>

fun find_status_target ::
  "runtime \<Rightarrow> jsstring \<Rightarrow> RVSession list \<Rightarrow> error + (RVTarget \<times> RVSession) option" where
  "find_status_target rt normalizedCode [] = Inr None"
| "find_status_target rt normalizedCode (s # rest) =
     (case array_find (code_matches rt normalizedCode) (targets s) of
        Inl e \<Rightarrow> Inl e
      | Inr (Some target) \<Rightarrow> Inr (Some (target, s))
      | Inr None \<Rightarrow> find_status_target rt normalizedCode rest)"

definition status_failed :: "printed list \<Rightarrow> error \<Rightarrow> fs \<Rightarrow> printed list \<times> exit \<times> fs" where
  "status_failed out e f =
     (out @ [LogError ''Failed to check status'', LogError (error_message e)], Exit 1, f)"

definition statusCommand :: "runtime \<Rightarrow> jsstring \<Rightarrow> int \<Rightarrow> fs \<Rightarrow> printed list \<times> exit \<times> fs" where
  "statusCommand rt c now f =
     (case getSession c f of
        (out, Inl e) \<Rightarrow> status_failed out e f
      | (out, Inr (Some session)) \<Rightarrow> (out @ [ShowSessionStatus session now], Completed, f)
      | (out, Inr None) \<Rightarrow>
          (case getAllSessions f of
             (out1, Inl e, f1) \<Rightarrow> status_failed (out @ out1) e f1
           | (out1, Inr allSessions, f1) \<Rightarrow>
               (case normalized_upper rt c of
                  Inl e \<Rightarrow> status_failed (out @ out1) e f1
                | Inr normalizedCode \<Rightarrow>
                    (case find_status_target rt normalizedCode allSessions of
                       Inl e \<Rightarrow> status_failed (out @ out1) e f1
                     | Inr (Some (target, s)) \<Rightarrow>
                         (out @ out1 @ [ShowTargetStatus target s now], Completed, f1)
                     | Inr None \<Rightarrow>
                         (out @ out1 @
                            [ConsoleLogCode ''Target or session not found:'' c,
                             ConsoleLog ''Use \"glimpse list\" to see available sessions and targets.''],
                          Exit 1, f1)))))"

subsection \<open>Failures of the store\<close>

text \<open>
  \<open>read_fails f i\<close>: reading session \<open>i\<close> fails, because \<open>readFile\<close> throws an error other
  than \<open>ENOENT\<close> or \<open>JSON.parse\<close> throws. \<open>listing_fails f\<close>: listing the sessions fails
  after the directory is there, because \<open>readdir\<close> throws or reading one of the listed
  session files fails.
\<close>

definition read_fails :: "fs \<Rightarrow> jsstring \<Rightarrow> bool" where
  "read_fails f i =
     (case fs_readFile (getSessionPath i) f of
        Inl e \<Rightarrow> e \<noteq> ENOENT
      | Inr data \<Rightarrow> (case JSON_parse data of Inl e \<Rightarrow> True | Inr s \<Rightarrow> False))"

definition listing_fails :: "fs \<Rightarrow> bool" where
  "listing_fails f =
     (faults f Readdir \<or>
      (case sessionsDir f of
         None \<Rightarrow> False
       | Some d \<Rightarrow> list_ex (\<lambda>file. endsWith file (js ''.json'')
                              \<and> read_fails f (remove_first (js ''.json'') file)) (map fst d)))"

subsection \<open>Examples\<close>



section \<open>Properties of the code scheme\<close>

lemma length_alphabet: "length CROCKFORD_ALPHABET = 32"
  by (simp add: CROCKFORD_ALPHABET_def js_def)

lemma symbol_in_alphabet: "CROCKFORD_ALPHABET ! (k mod 32) \<in> set CROCKFORD_ALPHABET"
  by (rule nth_mem) (simp add: length_alphabet)

lemma dash_not_in_alphabet: "0x2D \<notin> set CROCKFORD_ALPHABET"
  by (simp add: CROCKFORD_ALPHABET_def js_def)

lemma counter_below_ceiling: "real i < len \<Longrightarrow> i < nat \<lceil>len\<rceil>"
proof -
  assume "real i < len"
  also have "len \<le> of_int \<lceil>len\<rceil>" by (rule le_of_int_ceiling)
  finally have "int i < \<lceil>len\<rceil>" by (simp add: of_nat_less_of_int_iff)
  then show ?thesis by simp
qed

lemma counter_below_ceiling_iff: "real i < len \<longleftrightarrow> i < nat \<lceil>len\<rceil>"
proof
  assume "i < nat \<lceil>len\<rceil>"
  then have "int i < \<lceil>len\<rceil>" by simp
  then show "real i < len" by (simp add: less_ceiling_iff)
qed (rule counter_below_ceiling)

lemma generateCode_loop_stop:
  "\<not> real i < len \<Longrightarrow> generateCode_loop len sep pos n bytes i acc = acc"
  by (simp add: generateCode_loop.simps [of len sep pos n bytes i acc])

lemma generateCode_loop_step:
  "real i < len \<Longrightarrow> generateCode_loop len sep pos n bytes i acc =
     generateCode_loop len sep pos n bytes (i + 1) (acc @ piece len sep pos n bytes i)"
  by (simp add: generateCode_loop.simps [of len sep pos n bytes i acc] Let_def piece_def
        length_alphabet)

lemma generateCode_loop_concat:
  "generateCode_loop len sep pos n bytes i acc
     = acc @ concat (map (piece len sep pos n bytes) [i..<nat \<lceil>len\<rceil>])"
proof (induction len sep pos n bytes i acc rule: generateCode_loop.induct)
  case (1 len sep pos n bytes i acc)
  show ?case
  proof (cases "real i < len")
    case False
    then have "\<not> i < nat \<lceil>len\<rceil>" by (simp add: counter_below_ceiling_iff)
    with False show ?thesis by (simp add: generateCode_loop_stop)
  next
    case True
    then have lt: "i < nat \<lceil>len\<rceil>" by (simp add: counter_below_ceiling_iff)
    let ?c1 = "if i < n
               then acc @ [CROCKFORD_ALPHABET ! (unat (bytes i) mod length CROCKFORD_ALPHABET)]
               else acc @ js ''undefined''"
    let ?c2 = "if strict_equal i (minus_one pos) \<and> real i < len - 1 then ?c1 @ sep else ?c1"
    have c2: "?c2 = acc @ piece len sep pos n bytes i"
      by (simp add: piece_def length_alphabet)
    have "generateCode_loop len sep pos n bytes (i + 1) ?c2
            = ?c2 @ concat (map (piece len sep pos n bytes) [i + 1..<nat \<lceil>len\<rceil>])"
      by (rule "1.IH" [OF True refl refl])
    then have ih: "generateCode_loop len sep pos n bytes (i + 1) (acc @ piece len sep pos n bytes i)
            = (acc @ piece len sep pos n bytes i)
                @ concat (map (piece len sep pos n bytes) [i + 1..<nat \<lceil>len\<rceil>])"
      unfolding c2 .
    have upt: "[i..<nat \<lceil>len\<rceil>] = i # [i + 1..<nat \<lceil>len\<rceil>]"
      using lt by (simp add: upt_conv_Cons)
    show ?thesis unfolding generateCode_loop_step [OF True] ih upt by simp
  qed
qed

lemma generateCode_Inr:
  assumes "generateCode rt len sep pos bytes = Inr c"
  shows "(len = NotANumber \<and> c = [])
       \<or> (\<exists>q n. len = Finite q \<and> ToIndex len = Inr n
                \<and> c = concat (map (piece q sep pos n bytes) [0..<nat \<lceil>q\<rceil>]))"
  using assms
  by (cases len)
     (auto simp: generateCode_def generateCode_loop_concat ToIndex_def
           split: sum.splits option.splits if_splits)

lemma ToIndex_integer:
  assumes "ToIndex (Finite q) = Inr n" "q \<in> \<int>"
  shows "q = real n" "nat \<lceil>q\<rceil> = n"
proof -
  from assms(2) obtain z where z: "q = of_int z" by (auto elim: Ints_cases)
  with assms(1) have "0 \<le> z" "n = nat z"
    by (auto simp: ToIndex_def Let_def split: if_splits)
  with z show "q = real n" "nat \<lceil>q\<rceil> = n" by simp_all
qed

lemma concat_singletons: "(\<And>j. j \<in> set ks \<Longrightarrow> g j = [h j]) \<Longrightarrow> concat (map g ks) = map h ks"
  by (induction ks) auto

lemma pieces_with_separator:
  assumes "Suc k < m" and "\<And>j. strict_equal j (minus_one pos) \<longleftrightarrow> j = k"
  shows "concat (map (piece (real m) sep pos m bytes) [0..<m])
           = take (Suc k) (symbols bytes m) @ sep @ drop (Suc k) (symbols bytes m)"
proof -
  let ?g = "piece (real m) sep pos m bytes"
  have split_upt: "[0..<m] = [0..<k] @ [k] @ [Suc k..<m]"
  proof -
    have "[0..<m] = [0..<k] @ [k..<m]"
      using assms(1) upt_add_eq_append [of 0 k "m - k"] by simp
    moreover have "[k..<m] = k # [Suc k..<m]"
      using assms(1) by (simp add: upt_conv_Cons)
    ultimately show ?thesis by simp
  qed
  have a: "concat (map ?g [0..<k]) = symbols bytes k"
    unfolding symbols_def
    by (rule concat_singletons) (use assms in \<open>auto simp: piece_def\<close>)
  have b: "concat (map ?g [Suc k..<m])
             = map (\<lambda>i. CROCKFORD_ALPHABET ! (unat (bytes i) mod 32)) [Suc k..<m]"
    by (rule concat_singletons) (use assms in \<open>auto simp: piece_def\<close>)
  have c: "?g k = CROCKFORD_ALPHABET ! (unat (bytes k) mod 32) # sep"
    using assms by (auto simp: piece_def)
  have t: "take (Suc k) (symbols bytes m)
             = symbols bytes k @ [CROCKFORD_ALPHABET ! (unat (bytes k) mod 32)]"
    using assms(1) by (simp add: symbols_def take_map split_upt)
  have d: "drop (Suc k) (symbols bytes m)
             = map (\<lambda>i. CROCKFORD_ALPHABET ! (unat (bytes i) mod 32)) [Suc k..<m]"
    using assms(1) by (simp add: symbols_def drop_map)
  show ?thesis unfolding t d by (simp add: split_upt a b c)
qed

lemma pieces_without_separator:
  assumes "\<forall>j<m. \<not> (strict_equal j (minus_one pos) \<and> real j < real m - 1)"
  shows "concat (map (piece (real m) sep pos m bytes) [0..<m]) = symbols bytes m"
  unfolding symbols_def
  by (rule concat_singletons) (use assms in \<open>auto simp: piece_def\<close>)

lemma length_symbols: "length (symbols bytes n) = n"
  by (simp add: symbols_def)

lemma pieces_closed_form:
  "concat (map (piece (real m) sep pos m bytes) [0..<m]) = with_separator sep pos (symbols bytes m)"
proof (cases "\<exists>p. pos = Finite p \<and> p \<in> \<int> \<and> 1 \<le> p \<and> p < real m")
  case True
  then obtain p where p: "pos = Finite p" "p \<in> \<int>" "1 \<le> p" "p < real m" by blast
  from p(2) obtain z where z: "p = of_int z" by (auto elim: Ints_cases)
  with p(3) have "1 \<le> z" by simp
  define k where "k = nat z - 1"
  have zk: "z = int k + 1" using \<open>1 \<le> z\<close> by (simp add: k_def)
  with z have pk: "p = real k + 1" by simp
  with p(4) have lt: "Suc k < m" by linarith
  have fl: "nat \<lfloor>p\<rfloor> = Suc k" using z zk by simp
  have eq: "\<And>j. strict_equal j (minus_one pos) \<longleftrightarrow> j = k"
    by (simp add: p(1) pk)
  have "with_separator sep pos (symbols bytes m)
          = take (Suc k) (symbols bytes m) @ sep @ drop (Suc k) (symbols bytes m)"
    using p(2-4) by (simp add: with_separator_def p(1) length_symbols fl)
  with pieces_with_separator [OF lt eq, of sep bytes] show ?thesis by simp
next
  case False
  have no: "\<forall>j<m. \<not> (strict_equal j (minus_one pos) \<and> real j < real m - 1)"
  proof (intro allI impI notI)
    fix j assume "j < m" and h: "strict_equal j (minus_one pos) \<and> real j < real m - 1"
    then obtain p where p: "pos = Finite p" "real j = p - 1"
      by (cases pos) auto
    then have "p = real (Suc j)" by simp
    moreover from h have "Suc j < m" by linarith
    ultimately show False using False p(1) by auto
  qed
  have "with_separator sep pos (symbols bytes m) = symbols bytes m"
    using False by (auto simp: with_separator_def length_symbols split: jsnumber.splits)
  with pieces_without_separator [OF no] show ?thesis by simp
qed

lemma generateCode_integer_length:
  assumes "generateCode rt (Finite q) sep pos bytes = Inr c" "q \<in> \<int>"
  shows "0 \<le> q \<and> c = with_separator sep pos (symbols bytes (nat \<lfloor>q\<rfloor>))"
proof -
  from generateCode_Inr [OF assms(1)] obtain n
    where n: "ToIndex (Finite q) = Inr n"
      and c: "c = concat (map (piece q sep pos n bytes) [0..<nat \<lceil>q\<rceil>])"
    by auto
  from ToIndex_integer [OF n assms(2)] have q: "q = real n" "nat \<lceil>q\<rceil> = n" .
  show ?thesis
    unfolding c q(2) by (simp add: q(1) pieces_closed_form)
qed


lemma set_symbols: "set (symbols bytes n) \<subseteq> set CROCKFORD_ALPHABET"
  using symbol_in_alphabet by (auto simp: symbols_def)

lemma set_with_separator: "set (with_separator sep pos syms) \<subseteq> set syms \<union> set sep"
  by (auto simp: with_separator_def split: jsnumber.splits dest: in_set_takeD in_set_dropD)

text \<open>
  Claim C1, as amended. When \<open>generateCode\<close> returns a code for a \<open>length\<close> that is a
  whole number (or \<open>NaN\<close>, for which the code is empty), every character of the code that
  is not a character of the separator is a symbol of the alphabet, whatever the
  separator, the separator position and the random bytes are.
\<close>

theorem generateCode_alphabet:
  assumes "generateCode rt len sep pos bytes = Inr c"
    and "len = NotANumber \<or> isInteger len"
  shows "\<forall>x \<in> set c. x \<notin> set sep \<longrightarrow> x \<in> set CROCKFORD_ALPHABET"
proof (cases len)
  case (Finite q)
  with assms(2) have "q \<in> \<int>" by simp
  from generateCode_integer_length [OF assms(1) [unfolded Finite] this]
  have "c = with_separator sep pos (symbols bytes (nat \<lfloor>q\<rfloor>))" by simp
  then show ?thesis
    using set_with_separator [of sep pos "symbols bytes (nat \<lfloor>q\<rfloor>)"]
      set_symbols [of bytes "nat \<lfloor>q\<rfloor>"] by blast
next
  case NotANumber
  with generateCode_Inr [OF assms(1)] show ?thesis by simp
qed (use assms(2) in simp_all)

lemmas eval_generateCode =
  generateCode_def ToIndex_def getRandomValues_def randomBytes_def generateCode_loop.simps
  CROCKFORD_ALPHABET_def js_def example_runtime_def

theorem generateCode_alphabet_witness:
  "generateCode example_runtime (Finite 8) (js ''-'') (Finite 4) (\<lambda>i. of_nat (i * 37 + 250))
     = Inr (js ''TZ49-EKRX'')
   \<and> isInteger (Finite 8)
   \<and> set (js ''TZ49-EKRX'') - set (js ''-'') \<subseteq> set CROCKFORD_ALPHABET"
proof -
  have h: "generateCode example_runtime (Finite 8) (js ''-'') (Finite 4) (\<lambda>i. of_nat (i * 37 + 250))
     = Inr (js ''TZ49-EKRX'')"
    by (simp add: eval_generateCode)
  have i: "Finite 8 = NotANumber \<or> isInteger (Finite 8)" by simp
  show ?thesis using h generateCode_alphabet [OF h i] by auto
qed

text \<open>
  Claim C1 as stated fails for a \<open>length\<close> that is not a whole number: the array has
  \<open>floor(length)\<close> bytes and the loop makes one round more, in which \<open>bytes[i]\<close> is
  \<open>undefined\<close>. \<open>generateCode(2.5, '-', 4)\<close> returns \<open>00undefined\<close> when the two bytes
  are 0, with either random source.
\<close>

theorem generateCode_fractional_length:
  "generateCode example_runtime (Finite (5 / 2)) (js ''-'') (Finite 4) (\<lambda>i. 0)
     = Inr (js ''00undefined'')
   \<and> generateCode (example_runtime\<lparr>webCrypto := False\<rparr>) (Finite (5 / 2)) (js ''-'') (Finite 4) (\<lambda>i. 0)
     = Inr (js ''00undefined'')
   \<and> \<not> set (js ''00undefined'') - set (js ''-'') \<subseteq> set CROCKFORD_ALPHABET"
  by (simp add: eval_generateCode)

lemma count_dash_symbols: "count_list (take k (symbols bytes n)) 0x2D = 0"
  "count_list (drop k (symbols bytes n)) 0x2D = 0"
  using set_symbols [of bytes n] dash_not_in_alphabet
  by (auto simp: count_list_0_iff dest: in_set_takeD in_set_dropD)

lemma generateCode_default_closed_form:
  "generateCode_default rt bytes
     = Inr (take 4 (symbols bytes 8) @ js ''-'' @ drop 4 (symbols bytes 8))"
proof -
  have "generateCode_default rt bytes
          = Inr (concat (map (piece 8 (js ''-'') (Finite 4) 8 bytes) [0..<8]))"
    by (simp add: generateCode_default_def generateCode_def ToIndex_def getRandomValues_def
          randomBytes_def generateCode_loop_concat)
  also have "concat (map (piece 8 (js ''-'') (Finite 4) 8 bytes) [0..<8])
               = with_separator (js ''-'') (Finite 4) (symbols bytes 8)"
    using pieces_closed_form [of 8 "js ''-''" "Finite 4" bytes] by simp
  also have "\<dots> = take 4 (symbols bytes 8) @ js ''-'' @ drop 4 (symbols bytes 8)"
    by (simp add: with_separator_def length_symbols)
  finally show ?thesis .
qed

lemma generateCode_returns:
  assumes "q \<in> \<int>" "0 \<le> q" "q \<le> 65536"
  shows "\<exists>c. generateCode rt (Finite q) sep pos bytes = Inr c"
proof -
  from assms(1) obtain z where z: "q = of_int z" by (auto elim: Ints_cases)
  with assms(2,3) have "0 \<le> z" "z \<le> 65536" by simp_all
  then have "ToIndex (Finite q) = Inr (nat z)" "getRandomValues (nat z) = None"
    "randomBytes (Finite q) = None"
    by (simp_all add: ToIndex_def getRandomValues_def randomBytes_def z)
  then show ?thesis by (simp add: generateCode_def)
qed

text \<open>
  Claim C2, as amended. For a \<open>length\<close> that is a whole number from 0 to 65536 the call
  returns a code. Whenever a call with a whole \<open>length\<close> returns, the code is the
  \<open>length\<close> symbols drawn, with the separator put in once, after the symbol at
  \<open>separatorPosition\<close>, when \<open>separatorPosition\<close> is a whole number from 1 to
  \<open>length - 1\<close>, and without a separator otherwise. With the defaults the call returns a
  string of length 9 that has the dash at index 4 and nowhere else.
\<close>

theorem generateCode_separator:
  "(q \<in> \<int> \<and> 0 \<le> q \<and> q \<le> 65536
      \<longrightarrow> (\<exists>c. generateCode rt (Finite q) sep pos bytes = Inr c))
   \<and> (generateCode rt (Finite q) sep pos bytes = Inr c \<and> q \<in> \<int>
      \<longrightarrow> c = with_separator sep pos (symbols bytes (nat \<lfloor>q\<rfloor>)))
   \<and> (\<exists>c. generateCode_default rt bytes = Inr c \<and> length c = 9 \<and> c ! 4 = 0x2D
          \<and> count_list c 0x2D = 1)"
proof (intro conjI impI)
  assume "q \<in> \<int> \<and> 0 \<le> q \<and> q \<le> 65536"
  then show "\<exists>c. generateCode rt (Finite q) sep pos bytes = Inr c"
    using generateCode_returns by blast
next
  assume "generateCode rt (Finite q) sep pos bytes = Inr c \<and> q \<in> \<int>"
  then show "c = with_separator sep pos (symbols bytes (nat \<lfloor>q\<rfloor>))"
    using generateCode_integer_length by blast
next
  let ?c = "take 4 (symbols bytes 8) @ js ''-'' @ drop 4 (symbols bytes 8)"
  have "generateCode_default rt bytes = Inr ?c" by (rule generateCode_default_closed_form)
  moreover have "length ?c = 9" by (simp add: length_symbols js_def)
  moreover have "?c ! 4 = 0x2D" by (simp add: nth_append length_symbols js_def)
  moreover have "count_list ?c 0x2D = 1" by (simp add: count_dash_symbols js_def)
  ultimately show "\<exists>c. generateCode_default rt bytes = Inr c \<and> length c = 9 \<and> c ! 4 = 0x2D
          \<and> count_list c 0x2D = 1" by blast
qed

theorem generateCode_separator_witness:
  "generateCode example_runtime (Finite 3) (js ''ab'') (Finite 1) (\<lambda>i. of_nat (i * 37 + 250))
     = Inr (js ''TabZ4'')
   \<and> js ''TabZ4''
       = with_separator (js ''ab'') (Finite 1) (symbols (\<lambda>i. of_nat (i * 37 + 250)) 3)"
proof -
  have h: "generateCode example_runtime (Finite 3) (js ''ab'') (Finite 1) (\<lambda>i. of_nat (i * 37 + 250))
     = Inr (js ''TabZ4'')"
    by (simp add: eval_generateCode)
  have i: "(3 :: real) \<in> \<int>" by simp
  from generateCode_separator [where rt = example_runtime and q = 3 and sep = "js ''ab''"
      and pos = "Finite 1" and bytes = "\<lambda>i. of_nat (i * 37 + 250)" and c = "js ''TabZ4''"] h i
  have "js ''TabZ4''
       = with_separator (js ''ab'') (Finite 1) (symbols (\<lambda>i. of_nat (i * 37 + 250)) 3)"
    by simp
  with h show ?thesis by (intro conjI)
qed

text \<open>
  Claim C2 as stated fails: with a separator position beyond the length, or the position
  0, no separator is inserted, though the position is not that of the last character.
\<close>

theorem generateCode_position_out_of_range:
  "generateCode example_runtime (Finite 8) (js ''-'') (Finite 9) (\<lambda>i. 0) = Inr (js ''00000000'')
   \<and> generateCode example_runtime (Finite 8) (js ''-'') (Finite 0) (\<lambda>i. 0) = Inr (js ''00000000'')
   \<and> 0x2D \<notin> set (js ''00000000'')"
  by (simp add: eval_generateCode)

text \<open>
  Calls that return no code: an array beyond the quota of \<open>crypto.getRandomValues\<close>, a
  negative or infinite \<open>length\<close>, and \<open>NaN\<close> with \<open>randomBytes\<close> as the random source.
\<close>

lemma generateCode_throws:
  "generateCode example_runtime (Finite 70000) (js ''-'') (Finite 4) bytes = Inl QuotaExceededError"
  "generateCode rt (Finite (- 1)) sep pos bytes = Inl RangeError"
  "generateCode rt PlusInfinity sep pos bytes = Inl RangeError"
  "generateCode (example_runtime\<lparr>webCrypto := False\<rparr>) NotANumber sep pos bytes = Inl RangeError"
  "generateCode example_runtime NotANumber sep pos bytes = Inr []"
  by (simp_all add: generateCode_def ToIndex_def getRandomValues_def randomBytes_def
        example_runtime_def)

lemma replace_dash_no_dash: "0x2D \<notin> set (replace_dash x)"
  by (simp add: replace_dash_def)

lemma replace_dash_id: "0x2D \<notin> set s \<Longrightarrow> replace_dash s = s"
  by (auto simp: replace_dash_def filter_id_conv)

lemma strip_upper_idem:
  assumes "\<forall>s. up (up s) = up s"
    and "\<forall>s. 0x2D \<notin> set s \<longrightarrow> 0x2D \<notin> set (up s)"
  shows "up (replace_dash (up (replace_dash x))) = up (replace_dash x)"
proof -
  have "0x2D \<notin> set (up (replace_dash x))"
    using assms(2) replace_dash_no_dash by blast
  then have "replace_dash (up (replace_dash x)) = up (replace_dash x)"
    by (rule replace_dash_id)
  then show ?thesis by (simp add: assms(1))
qed

lemma validateCode_string:
  "validateCode rt (StringValue x)
     = Inr (\<forall>c \<in> set (toUpperCase rt (replace_dash x)). c \<in> set CROCKFORD_ALPHABET)"
proof -
  have "str_includes s [c] \<longleftrightarrow> c \<in> set s" for s c
    by (induction s) auto
  then show ?thesis
    by (simp add: validateCode_def Let_def split_chars_def list_all_iff)
qed

lemma normalizeCode_string:
  "normalizeCode rt (StringValue x) = Inr (toUpperCase rt (replace_dash x))"
  by (simp add: normalizeCode_def)

text \<open>
  Claim C3. The source relies on two properties of \<open>String.prototype.toUpperCase\<close>, which
  are hypotheses on the runtime here: upper-casing an upper-cased string changes nothing,
  and upper-casing a string without a dash gives a string without a dash. Then, for every
  string \<open>x\<close>, normalizing returns a string, and validating that string gives what
  validating \<open>x\<close> gives.
\<close>

theorem validateCode_normalizeCode:
  assumes "\<forall>s. toUpperCase rt (toUpperCase rt s) = toUpperCase rt s"
    and "\<forall>s. 0x2D \<notin> set s \<longrightarrow> 0x2D \<notin> set (toUpperCase rt s)"
  shows "\<exists>n. normalizeCode rt (StringValue x) = Inr n
           \<and> validateCode rt (StringValue n) = validateCode rt (StringValue x)"
  using strip_upper_idem [OF assms, of x]
  by (simp add: normalizeCode_string validateCode_string)

text \<open>
  Claim C4. Under the same two hypotheses on the upper-casing of the runtime, normalizing
  a string \<open>x\<close> returns a string, and normalizing that string returns it unchanged.
\<close>

theorem normalizeCode_idempotent:
  assumes "\<forall>s. toUpperCase rt (toUpperCase rt s) = toUpperCase rt s"
    and "\<forall>s. 0x2D \<notin> set s \<longrightarrow> 0x2D \<notin> set (toUpperCase rt s)"
  shows "\<exists>n. normalizeCode rt (StringValue x) = Inr n
           \<and> normalizeCode rt (StringValue n) = Inr n"
  using strip_upper_idem [OF assms, of x]
  by (simp add: normalizeCode_string)

text \<open>
  Claim C5. For every string \<open>x\<close> and every upper-casing of the runtime, \<open>validateCode\<close>
  and \<open>normalizeCode\<close> return and throw nothing: \<open>normalizeCode\<close> returns the upper-cased
  string without its dashes, and \<open>validateCode\<close> returns whether every code unit of that
  string is a symbol of the alphabet. When the upper case of the empty string is empty,
  a string that is empty after stripping the dashes, and the empty string, validate true.
\<close>

theorem validateCode_total:
  "validateCode rt (StringValue x)
     = Inr (\<forall>c \<in> set (toUpperCase rt (replace_dash x)). c \<in> set CROCKFORD_ALPHABET)
   \<and> normalizeCode rt (StringValue x) = Inr (toUpperCase rt (replace_dash x))
   \<and> (toUpperCase rt [] = [] \<and> replace_dash x = []
        \<longrightarrow> validateCode rt (StringValue x) = Inr True)
   \<and> (toUpperCase rt [] = [] \<longrightarrow> validateCode rt (StringValue []) = Inr True)"
  by (simp add: validateCode_string normalizeCode_string) (simp add: replace_dash_def)

text \<open>
  The upper-casing of the example runtime has the two properties: it is idempotent and
  introduces no dash. It maps the empty string to the empty string.
\<close>

lemma upper_unit_range:
  "upper_unit c = [c] \<or> set (upper_unit c) \<subseteq> set (js ''ABCDEFGHIJKLMNOPQRSTUVWXYZ'')"
proof (cases "map_of (zip (js ''abcdefghijklmnopqrstuvwxyz'') (js ''ABCDEFGHIJKLMNOPQRSTUVWXYZ'')) c")
  case None
  then show ?thesis by (simp add: upper_unit_def js_def)
next
  case (Some u)
  then have "(c, u) \<in> set (zip (js ''abcdefghijklmnopqrstuvwxyz'') (js ''ABCDEFGHIJKLMNOPQRSTUVWXYZ''))"
    by (rule map_of_SomeD)
  then have "u \<in> set (js ''ABCDEFGHIJKLMNOPQRSTUVWXYZ'')"
    by (rule set_zip_rightD)
  with Some show ?thesis by (simp add: upper_unit_def)
qed

lemma upper_unit_fix_all:
  "list_all (\<lambda>u. upper_unit u = [u]) (js ''ABCDEFGHIJKLMNOPQRSTUVWXYZ'')"
  by (simp add: upper_unit_def js_def)

lemma upper_unit_upper:
  "u \<in> set (js ''ABCDEFGHIJKLMNOPQRSTUVWXYZ'') \<Longrightarrow> upper_unit u = [u]"
  using upper_unit_fix_all unfolding list_all_iff by blast

lemma upper_unit_fixed: "u \<in> set (upper_unit c) \<Longrightarrow> upper_unit u = [u]"
  using upper_unit_range [of c] upper_unit_upper by auto

lemma upper_units_fixed:
  "(\<And>u. u \<in> set s \<Longrightarrow> upper_unit u = [u]) \<Longrightarrow> concat (map upper_unit s) = s"
  by (induction s) auto

lemma example_upper_idem:
  "toUpperCase example_runtime (toUpperCase example_runtime s) = toUpperCase example_runtime s"
  unfolding example_runtime_def
  by (simp, rule upper_units_fixed) (auto dest: upper_unit_fixed)

lemma dash_not_upper: "0x2D \<notin> set (js ''ABCDEFGHIJKLMNOPQRSTUVWXYZ'')"
  by (simp add: js_def)

lemma upper_unit_dash: "0x2D \<in> set (upper_unit c) \<Longrightarrow> c = 0x2D"
  using upper_unit_range [of c] dash_not_upper by auto

lemma example_upper_no_dash:
  "0x2D \<notin> set s \<Longrightarrow> 0x2D \<notin> set (toUpperCase example_runtime s)"
  unfolding example_runtime_def by (auto dest: upper_unit_dash)

lemma example_upper_empty: "toUpperCase example_runtime [] = []"
  by (simp add: example_runtime_def)

lemmas eval_codes =
  validateCode_def normalizeCode_def replace_dash_def split_chars_def example_runtime_def
  upper_unit_def js_def CROCKFORD_ALPHABET_def

theorem validateCode_normalizeCode_witness:
  "normalizeCode example_runtime (StringValue (js ''ab3d-x7k2'')) = Inr (js ''AB3DX7K2'')
   \<and> validateCode example_runtime (StringValue (js ''AB3DX7K2''))
       = validateCode example_runtime (StringValue (js ''ab3d-x7k2''))"
proof -
  have a: "\<forall>s. toUpperCase example_runtime (toUpperCase example_runtime s)
                = toUpperCase example_runtime s"
    by (simp add: example_upper_idem)
  have b: "\<forall>s. 0x2D \<notin> set s \<longrightarrow> 0x2D \<notin> set (toUpperCase example_runtime s)"
    by (simp add: example_upper_no_dash)
  have n: "normalizeCode example_runtime (StringValue (js ''ab3d-x7k2'')) = Inr (js ''AB3DX7K2'')"
    by (simp add: eval_codes)
  from validateCode_normalizeCode [OF a b, of "js ''ab3d-x7k2''"] n
  show ?thesis by auto
qed

theorem normalizeCode_idempotent_witness:
  "normalizeCode example_runtime (StringValue (js ''ab-'' @ [0xDF])) = Inr (js ''ABSS'')
   \<and> normalizeCode example_runtime (StringValue (js ''ABSS'')) = Inr (js ''ABSS'')"
proof -
  have a: "\<forall>s. toUpperCase example_runtime (toUpperCase example_runtime s)
                = toUpperCase example_runtime s"
    by (simp add: example_upper_idem)
  have b: "\<forall>s. 0x2D \<notin> set s \<longrightarrow> 0x2D \<notin> set (toUpperCase example_runtime s)"
    by (simp add: example_upper_no_dash)
  have n: "normalizeCode example_runtime (StringValue (js ''ab-'' @ [0xDF])) = Inr (js ''ABSS'')"
    by (simp add: eval_codes)
  from normalizeCode_idempotent [OF a b, of "js ''ab-'' @ [0xDF]"] n
  show ?thesis by auto
qed

theorem validateCode_total_witness:
  "validateCode example_runtime (StringValue (js ''--'')) = Inr True
   \<and> validateCode example_runtime (StringValue (js ''ab3d-x7k2'')) = Inr True
   \<and> validateCode example_runtime (StringValue (js ''ILOU-1234'')) = Inr False
   \<and> validateCode example_runtime (StringValue [0xDF]) = Inr True
   \<and> normalizeCode example_runtime (StringValue [0xDF]) = Inr (js ''SS'')"
proof -
  have e: "toUpperCase example_runtime [] = [] \<and> replace_dash (js ''--'') = []"
    by (simp add: example_upper_empty replace_dash_def js_def)
  have a: "\<forall>c \<in> set (toUpperCase example_runtime (replace_dash (js ''ab3d-x7k2''))).
             c \<in> set CROCKFORD_ALPHABET"
    by (simp add: eval_codes)
  have b: "\<not> (\<forall>c \<in> set (toUpperCase example_runtime (replace_dash (js ''ILOU-1234''))).
             c \<in> set CROCKFORD_ALPHABET)"
    by (simp add: eval_codes)
  have c: "\<forall>c \<in> set (toUpperCase example_runtime (replace_dash [0xDF])).
             c \<in> set CROCKFORD_ALPHABET"
    by (simp add: eval_codes)
  have d: "toUpperCase example_runtime (replace_dash [0xDF]) = js ''SS''"
    by (simp add: eval_codes)
  show ?thesis
    using e a b c d
      validateCode_total [of example_runtime "js ''--''"]
      validateCode_total [of example_runtime "js ''ab3d-x7k2''"]
      validateCode_total [of example_runtime "js ''ILOU-1234''"]
      validateCode_total [of example_runtime "[0xDF]"]
    by simp
qed

section \<open>Properties of create\<close>

lemma createCommand_no_key:
  "unsplashKey = None \<or> unsplashKey = Some [] \<Longrightarrow>
   createCommand rt unsplashKey options sessionId now rnd responses f =
     ([SpinnerFail ''Unsplash API key not found'',
       ConsoleLog ''Please set UNSPLASH_ACCESS_KEY in your .env file or environment'',
       ConsoleLog ''Get your key at: https://unsplash.com/developers''], Exit 1, f)"
  unfolding createCommand_def by (simp only: if_True)

lemma createCommand_rejected:
  assumes "unsplashKey \<noteq> None" "unsplashKey \<noteq> Some []"
    and "num_lt (parseInt (opt_targets options)) (Num 1) \<or> num_gt (parseInt (opt_targets options)) (Num 10)"
  shows "createCommand rt unsplashKey options sessionId now rnd responses f = (invalid_target_count, Exit 1, f)"
proof -
  from assms(1,2) obtain k where "unsplashKey = Some k" "k \<noteq> []" by auto
  with assms(3) show ?thesis
    unfolding createCommand_def invalid_target_count_def Let_def by simp
qed

lemma createCommand_accepted:
  assumes "unsplashKey \<noteq> None" "unsplashKey \<noteq> Some []"
    and "\<not> (num_lt (parseInt (opt_targets options)) (Num 1) \<or> num_gt (parseInt (opt_targets options)) (Num 10))"
  shows "createCommand rt unsplashKey options sessionId now rnd responses f =
     (case createTargets_loop rt (parseInt (opt_targets options)) rnd responses 0 [] [] of
        (out, Inl e) \<Rightarrow>
          (out @ [SpinnerFail ''Failed to create session'', LogError (error_message e)], Exit 1, f)
      | (out, Inr ts) \<Rightarrow> finish_create out (new_session options sessionId now ts) f)"
proof -
  from assms(1,2) obtain k where "unsplashKey = Some k" "k \<noteq> []" by auto
  with assms(3) show ?thesis
    unfolding createCommand_def finish_create_def new_session_def Let_def
    by (simp split: prod.splits sum.splits)
qed

lemma createTargets_loop_NaN: "createTargets_loop rt NaN rnd responses i out ts = (out, Inr ts)"
  by (simp add: createTargets_loop.simps [of rt NaN rnd responses i out ts])

lemma finish_create_not_rejected: "finish_create out session f \<noteq> (invalid_target_count, Exit 1, f')"
  unfolding finish_create_def invalid_target_count_def
  by (auto split: prod.splits sum.splits simp: append_eq_Cons_conv Cons_eq_append_conv)

lemma createCommand_rejected_iff:
  assumes "unsplashKey \<noteq> None" "unsplashKey \<noteq> Some []"
  shows "createCommand rt unsplashKey options sessionId now rnd responses f = (invalid_target_count, Exit 1, f)
     \<longleftrightarrow> (\<exists>n. parseInt (opt_targets options) = Num n \<and> (n < 1 \<or> 10 < n))"
proof (cases "num_lt (parseInt (opt_targets options)) (Num 1) \<or> num_gt (parseInt (opt_targets options)) (Num 10)")
  case True
  then have "\<exists>n. parseInt (opt_targets options) = Num n \<and> (n < 1 \<or> 10 < n)"
    by (cases "parseInt (opt_targets options)") auto
  with True assms show ?thesis by (simp add: createCommand_rejected)
next
  case False
  then have no: "\<not> (\<exists>n. parseInt (opt_targets options) = Num n \<and> (n < 1 \<or> 10 < n))"
    by (cases "parseInt (opt_targets options)") auto
  have "createCommand rt unsplashKey options sessionId now rnd responses f \<noteq> (invalid_target_count, Exit 1, f)"
    unfolding createCommand_accepted [OF assms False]
    using finish_create_not_rejected
    by (auto split: prod.splits sum.splits simp: invalid_target_count_def append_eq_Cons_conv Cons_eq_append_conv)
  with no show ?thesis by simp
qed

text \<open>
  Claim C10. With the access key set, create takes the exit for an invalid target count
  exactly when the parsed count is a number below 1 or above 10. When \<open>parseInt\<close> gives
  \<open>NaN\<close>, both comparisons are false, the loop makes no round and the command goes on to
  save a session without targets.
\<close>

theorem createCommand_target_count:
  assumes "unsplashKey \<noteq> None" "unsplashKey \<noteq> Some []"
  shows "(createCommand rt unsplashKey options sessionId now rnd responses f = (invalid_target_count, Exit 1, f)
            \<longleftrightarrow> (\<exists>n. parseInt (opt_targets options) = Num n \<and> (n < 1 \<or> 10 < n)))
       \<and> (parseInt (opt_targets options) = NaN \<longrightarrow>
            \<not> num_lt (parseInt (opt_targets options)) (Num 1)
          \<and> \<not> num_gt (parseInt (opt_targets options)) (Num 10)
          \<and> createCommand rt unsplashKey options sessionId now rnd responses f
              = finish_create [] (new_session options sessionId now []) f)"
proof (intro conjI impI)
  show "createCommand rt unsplashKey options sessionId now rnd responses f = (invalid_target_count, Exit 1, f)
            \<longleftrightarrow> (\<exists>n. parseInt (opt_targets options) = Num n \<and> (n < 1 \<or> 10 < n))"
    by (rule createCommand_rejected_iff [OF assms])
next
  assume nan: "parseInt (opt_targets options) = NaN"
  then show "\<not> num_lt (parseInt (opt_targets options)) (Num 1)"
    and "\<not> num_gt (parseInt (opt_targets options)) (Num 10)" by simp_all
  then have "\<not> (num_lt (parseInt (opt_targets options)) (Num 1) \<or> num_gt (parseInt (opt_targets options)) (Num 10))"
    by simp
  from createCommand_accepted [OF assms this]
  show "createCommand rt unsplashKey options sessionId now rnd responses f
              = finish_create [] (new_session options sessionId now []) f"
    by (simp add: nan createTargets_loop_NaN)
qed

lemmas eval_parseInt =
  parseInt_def isStrWhiteSpaceChar_def isRadixDigit_def digitValue_def mathInt_def js_def

theorem createCommand_target_count_witness:
  "parseInt (js ''11'') = Num 11
   \<and> createCommand example_runtime (Some (js ''key''))
        \<lparr>opt_duration = js ''60'', opt_targets = js ''11'', opt_name = None,
         opt_source = js ''unsplash''\<rparr>
        (js ''00aa'') 1000000 (\<lambda>i j. 0) (\<lambda>i. Inl (AxiosError ''timeout''))
        \<lparr>sessionsDir = None, faults = (\<lambda>op. False)\<rparr>
       = (invalid_target_count, Exit 1, \<lparr>sessionsDir = None, faults = (\<lambda>op. False)\<rparr>)
   \<and> parseInt (js ''abc'') = NaN
   \<and> createCommand example_runtime (Some (js ''key''))
        \<lparr>opt_duration = js ''60'', opt_targets = js ''abc'', opt_name = None,
         opt_source = js ''unsplash''\<rparr>
        (js ''00aa'') 1000000 (\<lambda>i j. 0) (\<lambda>i. Inl (AxiosError ''timeout''))
        \<lparr>sessionsDir = None, faults = (\<lambda>op. False)\<rparr>
       = finish_create []
           (new_session
              \<lparr>opt_duration = js ''60'', opt_targets = js ''abc'', opt_name = None,
               opt_source = js ''unsplash''\<rparr>
              (js ''00aa'') 1000000 [])
           \<lparr>sessionsDir = None, faults = (\<lambda>op. False)\<rparr>
   \<and> parseInt ([0xA0, 0x2028, 0xFEFF] @ js ''11'') = Num 11
   \<and> createCommand example_runtime (Some (js ''key''))
        \<lparr>opt_duration = js ''60'', opt_targets = [0xA0, 0x2028, 0xFEFF] @ js ''11'',
         opt_name = None, opt_source = js ''unsplash''\<rparr>
        (js ''00aa'') 1000000 (\<lambda>i j. 0) (\<lambda>i. Inl (AxiosError ''timeout''))
        \<lparr>sessionsDir = None, faults = (\<lambda>op. False)\<rparr>
       = (invalid_target_count, Exit 1, \<lparr>sessionsDir = None, faults = (\<lambda>op. False)\<rparr>)"
proof -
  have k: "Some (js ''key'') \<noteq> None" "Some (js ''key'') \<noteq> Some []" by (simp_all add: js_def)
  have a: "parseInt (js ''11'') = Num 11"
    by (simp add: eval_parseInt)
  have b: "parseInt (js ''abc'') = NaN"
    by (simp add: eval_parseInt)
  have c: "parseInt ([0xA0, 0x2028, 0xFEFF] @ js ''11'') = Num 11"
    by (simp add: eval_parseInt)
  show ?thesis
    using a b c
      createCommand_target_count [OF k, of example_runtime
        "\<lparr>opt_duration = js ''60'', opt_targets = js ''11'', opt_name = None,
          opt_source = js ''unsplash''\<rparr>"
        "js ''00aa''" 1000000 "\<lambda>i j. 0" "\<lambda>i. Inl (AxiosError ''timeout'')"
        "\<lparr>sessionsDir = None, faults = (\<lambda>op. False)\<rparr>"]
      createCommand_target_count [OF k, of example_runtime
        "\<lparr>opt_duration = js ''60'', opt_targets = js ''abc'', opt_name = None,
          opt_source = js ''unsplash''\<rparr>"
        "js ''00aa''" 1000000 "\<lambda>i j. 0" "\<lambda>i. Inl (AxiosError ''timeout'')"
        "\<lparr>sessionsDir = None, faults = (\<lambda>op. False)\<rparr>"]
      createCommand_target_count [OF k, of example_runtime
        "\<lparr>opt_duration = js ''60'', opt_targets = [0xA0, 0x2028, 0xFEFF] @ js ''11'',
          opt_name = None, opt_source = js ''unsplash''\<rparr>"
        "js ''00aa''" 1000000 "\<lambda>i j. 0" "\<lambda>i. Inl (AxiosError ''timeout'')"
        "\<lparr>sessionsDir = None, faults = (\<lambda>op. False)\<rparr>"]
    by simp
qed

lemma created_session_finish_create:
  "created_session (finish_create out session f) = Some s \<Longrightarrow> s = session"
  unfolding finish_create_def created_session_def
  by (auto split: prod.splits sum.splits)

lemma created_session_createCommand:
  assumes "created_session (createCommand rt unsplashKey options sessionId now rnd responses f) = Some s"
  shows "\<exists>ts. s = new_session options sessionId now ts"
proof (cases "unsplashKey = None \<or> unsplashKey = Some []")
  case True
  with assms show ?thesis by (simp add: createCommand_no_key created_session_def)
next
  case key: False
  show ?thesis
  proof (cases "num_lt (parseInt (opt_targets options)) (Num 1) \<or> num_gt (parseInt (opt_targets options)) (Num 10)")
    case True
    with key assms show ?thesis by (simp add: createCommand_rejected created_session_def)
  next
    case False
    obtain out r where loop: "createTargets_loop rt (parseInt (opt_targets options)) rnd responses 0 [] [] = (out, r)"
      by (cases "createTargets_loop rt (parseInt (opt_targets options)) rnd responses 0 [] []")
    show ?thesis
    proof (cases r)
      case (Inl e)
      with key False loop assms show ?thesis
        by (simp add: createCommand_accepted created_session_def)
    next
      case (Inr ts)
      with key False loop assms
      have "created_session (finish_create out (new_session options sessionId now ts) f) = Some s"
        by (simp add: createCommand_accepted)
      then show ?thesis by (blast dest: created_session_finish_create)
    qed
  qed
qed

lemma reveal_not_before_creation_new_session:
  "reveal_not_before_creation (new_session options sessionId now ts) \<longleftrightarrow>
     (\<exists>d. parseInt (opt_duration options) = Num d \<and> 0 \<le> d
          \<and> \<bar>now + d * 60000\<bar> \<le> 8640000000000000)"
  unfolding reveal_not_before_creation_def new_session_def newDate_ms_def timeClip_def
  by (cases "parseInt (opt_duration options)") auto

text \<open>
  Claim C6, as amended. The session of a successful create has the clock as its creation
  time and the clipped sum of the clock and the duration in milliseconds as its reveal
  time; the reveal time is at or after the creation time exactly when the parsed
  duration is a number, not negative, and the sum is in the range of \<open>Date\<close>.
\<close>

theorem createCommand_reveal_time:
  assumes "created_session (createCommand rt unsplashKey options sessionId now rnd responses f) = Some s"
  shows "createdAt s = DateObj (Num now)
       \<and> revealAt s = newDate_ms (num_add (Num now)
                         (num_mul (num_mul (parseInt (opt_duration options)) (Num 60)) (Num 1000)))
       \<and> (reveal_not_before_creation s \<longleftrightarrow>
            (\<exists>d. parseInt (opt_duration options) = Num d \<and> 0 \<le> d
                 \<and> \<bar>now + d * 60000\<bar> \<le> 8640000000000000))"
proof -
  from created_session_createCommand [OF assms]
  obtain ts where s: "s = new_session options sessionId now ts" ..
  show ?thesis
    unfolding s reveal_not_before_creation_new_session
    by (simp add: new_session_def)
qed

lemmas eval_create =
  createCommand_def parseInt_def isStrWhiteSpaceChar_def isRadixDigit_def digitValue_def
  mathInt_def createTargets_loop.simps generateCode_default_def generateCode_def ToIndex_def
  getRandomValues_def randomBytes_def generateCode_loop.simps example_runtime_def
  CROCKFORD_ALPHABET_def fetchRandomImage_def saveSession_def
  ensureDataDirectory_def fs_mkdir_def fs_writeFile_def getSessionPath_def JSON_stringify_def
  toJSON_session_def toJSON_target_def newDate_ms_def timeClip_def created_session_def
  reveal_not_before_creation_def js_def

theorem createCommand_reveal_time_witness:
  "created_session
     (createCommand example_runtime (Some (js ''key''))
        \<lparr>opt_duration = [0xA0] @ js ''60'', opt_targets = js ''1'', opt_name = None,
         opt_source = js ''unsplash''\<rparr>
        (js ''00aa'') 1000000 (\<lambda>i j. 0)
        (\<lambda>i. Inr \<lparr>url = js ''u'', description = js ''d'', sourceUrl = js ''s''\<rparr>)
        \<lparr>sessionsDir = None, faults = (\<lambda>op. False)\<rparr>)
    = Some \<lparr>id_s = js ''00aa'', name = None,
             targets = [\<lparr>code = js ''0000-0000'', targetUrl = js ''u'',
                         targetDescription = js ''d'',
                         targetSource = unsplash, revealed = False, revealedAt = None\<rparr>],
             createdAt = DateObj (Num 1000000), revealAt = DateObj (Num 4600000),
             notes_s = None, session_revealedAt = None\<rparr>
   \<and> reveal_not_before_creation
        \<lparr>id_s = js ''00aa'', name = None,
         targets = [\<lparr>code = js ''0000-0000'', targetUrl = js ''u'',
                     targetDescription = js ''d'',
                     targetSource = unsplash, revealed = False, revealedAt = None\<rparr>],
         createdAt = DateObj (Num 1000000), revealAt = DateObj (Num 4600000),
         notes_s = None, session_revealedAt = None\<rparr>"
proof -
  have h: "created_session
     (createCommand example_runtime (Some (js ''key''))
        \<lparr>opt_duration = [0xA0] @ js ''60'', opt_targets = js ''1'', opt_name = None,
         opt_source = js ''unsplash''\<rparr>
        (js ''00aa'') 1000000 (\<lambda>i j. 0)
        (\<lambda>i. Inr \<lparr>url = js ''u'', description = js ''d'', sourceUrl = js ''s''\<rparr>)
        \<lparr>sessionsDir = None, faults = (\<lambda>op. False)\<rparr>)
    = Some \<lparr>id_s = js ''00aa'', name = None,
             targets = [\<lparr>code = js ''0000-0000'', targetUrl = js ''u'',
                         targetDescription = js ''d'',
                         targetSource = unsplash, revealed = False, revealedAt = None\<rparr>],
             createdAt = DateObj (Num 1000000), revealAt = DateObj (Num 4600000),
             notes_s = None, session_revealedAt = None\<rparr>"
    by (simp add: eval_create)
  have d: "parseInt ([0xA0] @ js ''60'') = Num 60"
    by (simp add: eval_parseInt)
  note iff = createCommand_reveal_time [OF h, THEN conjunct2, THEN conjunct2]
  have "reveal_not_before_creation
        \<lparr>id_s = js ''00aa'', name = None,
         targets = [\<lparr>code = js ''0000-0000'', targetUrl = js ''u'',
                     targetDescription = js ''d'',
                     targetSource = unsplash, revealed = False, revealedAt = None\<rparr>],
         createdAt = DateObj (Num 1000000), revealAt = DateObj (Num 4600000),
         notes_s = None, session_revealedAt = None\<rparr>"
    unfolding iff using d by simp
  with h show ?thesis by (intro conjI)
qed

text \<open>
  Claim C6 as stated fails: with \<open>--duration -5\<close> the session is created and its reveal
  time is five minutes before its creation time.
\<close>

theorem createCommand_negative_duration:
  "map_option (\<lambda>s. (createdAt s, revealAt s, reveal_not_before_creation s))
     (created_session
       (createCommand example_runtime (Some (js ''key''))
          \<lparr>opt_duration = js ''-5'', opt_targets = js ''1'', opt_name = None,
           opt_source = js ''unsplash''\<rparr>
          (js ''00aa'') 1000000 (\<lambda>i j. 0)
          (\<lambda>i. Inr \<lparr>url = js ''u'', description = js ''d'', sourceUrl = js ''s''\<rparr>)
          \<lparr>sessionsDir = None, faults = (\<lambda>op. False)\<rparr>))
   = Some (DateObj (Num 1000000), DateObj (Num 700000), False)"
  by (simp add: eval_create)

section \<open>Properties of the store and of reveal\<close>

lemmas eval_store =
  saveSession_def ensureDataDirectory_def fs_mkdir_def fs_writeFile_def fs_readFile_def
  fs_readdir_def getSessionPath_def JSON_stringify_def toJSON_session_def toJSON_target_def
  getSession_def getAllSessions_def endsWith_def sort_sessions_def compare_sessions_def js_def

text \<open>
  Claim C8 fails on the code. \<open>getSession\<close> turns \<open>createdAt\<close> and \<open>revealAt\<close> of the
  session back into dates, and then \<open>revealedAt\<close> of the session, a property a session
  does not have; \<open>revealedAt\<close> of a target stays the ISO string. Saving a session with a
  revealed target and reading it back:
\<close>

theorem getSession_saveSession_revealedAt:
  "(case saveSession
           \<lparr>id_s = js ''00aa'', name = None,
            targets = [\<lparr>code = js ''0000-0000'', targetUrl = js ''u'',
                        targetDescription = js ''d'',
                        targetSource = unsplash, revealed = True,
                        revealedAt = Some (DateObj (Num 2000000))\<rparr>],
            createdAt = DateObj (Num 1000000), revealAt = DateObj (Num 1060000),
            notes_s = None, session_revealedAt = None\<rparr>
           \<lparr>sessionsDir = None, faults = (\<lambda>op. False)\<rparr> of
      (out, r, f1) \<Rightarrow> (r, snd (getSession (js ''00aa'') f1)))
   = (Inr (),
      Inr (Some
           \<lparr>id_s = js ''00aa'', name = None,
            targets = [\<lparr>code = js ''0000-0000'', targetUrl = js ''u'',
                        targetDescription = js ''d'',
                        targetSource = unsplash, revealed = True,
                        revealedAt = Some (IsoString 2000000)\<rparr>],
            createdAt = DateObj (Num 1000000), revealAt = DateObj (Num 1060000),
            notes_s = None, session_revealedAt = None\<rparr>))"
  by (simp add: eval_store timeClip_def)

text \<open>
  In general, with no fault of the file system and valid dates in the session, saving and
  reading back gives the session with \<open>revealedAt\<close> of every target as
  \<open>JSON.stringify\<close> wrote it; everything else is read back as it was saved.
\<close>

lemma getSession_saveSession_dates:
  assumes "\<not> faults f Mkdir"
    and "\<not> faults f (WriteFile (getSessionPath (id_s s)))"
    and "\<not> faults f (ReadFile (getSessionPath (id_s s)))"
    and "createdAt s = DateObj (Num a)" "\<bar>a\<bar> \<le> 8640000000000000"
    and "revealAt s = DateObj (Num b)" "\<bar>b\<bar> \<le> 8640000000000000"
    and "session_revealedAt s = None"
  shows "saveSession s f =
           ([LogDebug ''Session saved''], Inr (),
            f\<lparr>sessionsDir := Some (AList.update (getSessionPath (id_s s)) (JSON_stringify s)
                                   (case sessionsDir f of None \<Rightarrow> [] | Some d \<Rightarrow> d))\<rparr>)"
    and "getSession (id_s s)
           (f\<lparr>sessionsDir := Some (AList.update (getSessionPath (id_s s)) (JSON_stringify s)
                                   (case sessionsDir f of None \<Rightarrow> [] | Some d \<Rightarrow> d))\<rparr>)
         = ([], Inr (Some (s\<lparr>targets := map toJSON_target (targets s)\<rparr>)))"
proof -
  show "saveSession s f =
           ([LogDebug ''Session saved''], Inr (),
            f\<lparr>sessionsDir := Some (AList.update (getSessionPath (id_s s)) (JSON_stringify s)
                                   (case sessionsDir f of None \<Rightarrow> [] | Some d \<Rightarrow> d))\<rparr>)"
    using assms(1,2)
    by (simp add: saveSession_def ensureDataDirectory_def fs_mkdir_def fs_writeFile_def Let_def)
  have conv: "toJSON_session s
                \<lparr>createdAt := newDate (createdAt (toJSON_session s)),
                 revealAt := newDate (revealAt (toJSON_session s))\<rparr>
              = s\<lparr>targets := map toJSON_target (targets s)\<rparr>"
    using assms(4-8) by (simp add: toJSON_session_def timeClip_def)
  show "getSession (id_s s)
           (f\<lparr>sessionsDir := Some (AList.update (getSessionPath (id_s s)) (JSON_stringify s)
                                   (case sessionsDir f of None \<Rightarrow> [] | Some d \<Rightarrow> d))\<rparr>)
         = ([], Inr (Some (s\<lparr>targets := map toJSON_target (targets s)\<rparr>)))"
    using assms(3,8) conv
    by (simp add: getSession_def fs_readFile_def Let_def update_conv' JSON_stringify_def
          toJSON_session_def)
qed












end
